theory Spec2Isabelle
  imports Complex_Main "HOL-Library.Product_Lexorder" "HOL-Library.Sublist"
begin

section \<open>Appointment search: data model\<close>

text \<open>
  A shallow embedding of \<^verbatim>\<open>src/ity/app/main.py\<close>: the domain models, the scoring
  function, normalisation, the query interpreter, the temporal phrase parser and the
  aggregation pipeline.

  Conventions of the embedding.
  \<^item> A Python \<^verbatim>\<open>float\<close> that enters arithmetic is a \<open>real\<close>: a finite value, computed
    exactly; the rounding error of binary floating point is outside the model. The
    budget of a request is only compared, never computed with: it is a \<open>py_float\<close>,
    which has the infinities and not-a-number.
  \<^item> A Python \<^verbatim>\<open>int\<close> is an \<open>int\<close>.
  \<^item> A \<^verbatim>\<open>datetime\<close> read from the clock or carried by a slot is a naive UTC instant,
    as \<^verbatim>\<open>datetime.utcnow()\<close> and the two connectors produce it: an \<open>int\<close> counting
    microseconds. A datetime returned by \<^verbatim>\<open>dtparse.parse\<close> is naive or timezone-aware
    (\<open>parsed_datetime\<close>), and comparing a naive with an aware one raises
    \<^verbatim>\<open>TypeError\<close>. The range limits of \<^verbatim>\<open>datetime\<close> are outside the model.
  \<^item> A \<^verbatim>\<open>str\<close> is a \<open>string\<close>; each \<open>char\<close> stands for the code point of the
    same number (0 to 255). Code points above 255 are outside the model.
  \<^item> \<^verbatim>\<open>Optional[T]\<close> is \<open>T option\<close>.
  \<^item> The system clock is read by \<^verbatim>\<open>datetime.utcnow()\<close>. A function that reads it once
    takes the instant read as the parameter \<open>now\<close>; \<open>normalize_slots\<close> reads it once
    for each slot and takes the function \<open>nows\<close> from the index of the slot to the
    instant read for it.
  \<^item> The libraries \<^verbatim>\<open>rapidfuzz\<close> and \<^verbatim>\<open>dateutil\<close> and the two connectors are not
    part of the repository's source: \<^verbatim>\<open>fuzz.partial_ratio\<close> and \<^verbatim>\<open>dtparse.parse\<close>
    are parameters, and the pipeline takes the lists the connectors returned.
\<close>

type_synonym datetime = int

datatype parsed_datetime = Naive datetime | Aware datetime

datatype py_float = Finite real | PosInf | NegInf | NaN

record AppointmentSlot =
  provider :: string
  provider_location_id :: string
  provider_location_name :: string
  stylist_name :: "string option"
  service_name :: string
  start_time :: datetime
  duration_minutes :: int
  price_cents :: int
  currency :: string
  latitude :: "real option"
  longitude :: "real option"
  provider_url :: "string option"
  provider_internal_id :: "string option"
  score :: "real option"

record SearchRequest =
  query :: "string option"
  when_phrase :: "string option"
  budget_max :: "py_float option"
  distance_miles_max :: "real option"
  service :: "string option"
  stylist :: "string option"
  lat :: "real option"
  lng :: "real option"
  limit :: int

text \<open>
  The fields of \<^verbatim>\<open>NormalizedSlot\<close> carry the prefix \<open>ns_\<close>: most of them share
  their name with a field of \<^verbatim>\<open>AppointmentSlot\<close>, and \<open>id\<close> is the identity
  function of HOL. The field \<^verbatim>\<open>when\<close> of \<^verbatim>\<open>SearchRequest\<close> is \<open>when_phrase\<close>
  (\<open>when\<close> is a keyword).
\<close>

record NormalizedSlot =
  ns_id :: string
  ns_provider :: string
  ns_location_name :: string
  ns_service_name :: string
  ns_stylist_name :: "string option"
  ns_start_time :: datetime
  ns_duration_minutes :: int
  ns_price_cents :: int
  ns_currency :: string
  ns_latitude :: "real option"
  ns_longitude :: "real option"
  ns_book_url :: "string option"
  ns_score :: real


section \<open>Python values\<close>

text \<open>
  The exceptions the modelled code can raise; all of them are subclasses of
  \<^verbatim>\<open>Exception\<close>. A function that can raise returns \<open>py_error + 'a\<close>, with \<open>Inl\<close>
  for the exception.
\<close>

datatype py_error = IndexError | ValueError | OverflowError | ParserError | TypeError

text \<open>\<^verbatim>\<open>xs[i]\<close> for an index that is not negative.\<close>

definition py_index :: "'a list \<Rightarrow> nat \<Rightarrow> py_error + 'a" where
  "py_index xs i = (if i < length xs then Inr (xs ! i) else Inl IndexError)"

text \<open>\<^verbatim>\<open>xs[:stop]\<close>: a negative \<^verbatim>\<open>stop\<close> counts from the end of the list.\<close>

definition py_slice_to :: "'a list \<Rightarrow> int \<Rightarrow> 'a list" where
  "py_slice_to xs stop =
     (if 0 \<le> stop then take (nat stop) xs else take (nat (int (length xs) + stop)) xs)"

text \<open>The truth value of an optional string and of an optional float.\<close>

definition truthy_str :: "string option \<Rightarrow> bool" where
  "truthy_str v = (case v of None \<Rightarrow> False | Some s \<Rightarrow> s \<noteq> [])"

definition truthy_float :: "real option \<Rightarrow> bool" where
  "truthy_float v = (case v of None \<Rightarrow> False | Some x \<Rightarrow> x \<noteq> 0)"

text \<open>\<^verbatim>\<open>v or d\<close>: the left operand when it is truthy, else the right one.\<close>

definition or_str :: "string option \<Rightarrow> string \<Rightarrow> string" where
  "or_str v d = (case v of None \<Rightarrow> d | Some s \<Rightarrow> if s = [] then d else s)"

definition or_float :: "real option \<Rightarrow> real \<Rightarrow> real" where
  "or_float v d = (case v of None \<Rightarrow> d | Some x \<Rightarrow> if x = 0 then d else x)"

text \<open>
  \<^verbatim>\<open>x > b\<close> and \<^verbatim>\<open>x <= b\<close> for a finite \<open>x\<close> and a float \<open>b\<close>: every comparison
  with not-a-number is false.
\<close>

fun float_gt :: "real \<Rightarrow> py_float \<Rightarrow> bool" where
  "float_gt x (Finite b) = (x > b)"
| "float_gt x PosInf = False"
| "float_gt x NegInf = True"
| "float_gt x NaN = False"

fun float_le :: "real \<Rightarrow> py_float \<Rightarrow> bool" where
  "float_le x (Finite b) = (x \<le> b)"
| "float_le x PosInf = True"
| "float_le x NegInf = False"
| "float_le x NaN = False"

text \<open>
  \<^verbatim>\<open>s < t\<close> for a naive datetime \<open>s\<close> and a parsed one: Python refuses to compare
  an offset-naive with an offset-aware datetime.
\<close>

fun naive_lt :: "datetime \<Rightarrow> parsed_datetime \<Rightarrow> py_error + bool" where
  "naive_lt s (Naive t) = Inr (s < t)"
| "naive_lt s (Aware t) = Inl TypeError"

text \<open>
  \<^verbatim>\<open>round(x, ndigits)\<close> on a float rounds the exact value to the nearest multiple of
  \<open>10 ^ -ndigits\<close>, a tie to the even one.
\<close>

definition round_half_even :: "real \<Rightarrow> int" where
  "round_half_even y =
     (let f = \<lfloor>y\<rfloor>; d = y - of_int f
      in if d < 1 / 2 then f else if 1 / 2 < d then f + 1 else if even f then f else f + 1)"

definition py_round :: "real \<Rightarrow> nat \<Rightarrow> real" where
  "py_round x ndigits = of_int (round_half_even (x * 10 ^ ndigits)) / 10 ^ ndigits"

text \<open>\<^verbatim>\<open>timedelta(hours=h)\<close> and \<^verbatim>\<open>timedelta(days=d)\<close>, in microseconds.\<close>

definition timedelta_hours :: "int \<Rightarrow> int" where
  "timedelta_hours h = h * 3600000000"

definition timedelta_days :: "int \<Rightarrow> int" where
  "timedelta_days d = d * 86400000000"

section \<open>Python strings\<close>

definition lower_char :: "char \<Rightarrow> char" where
  "lower_char c =
     (let n = (of_char c :: nat)
      in if (65 \<le> n \<and> n \<le> 90) \<or> (192 \<le> n \<and> n \<le> 222 \<and> n \<noteq> 215)
         then char_of (n + 32) else c)"

definition py_lower :: "string \<Rightarrow> string" where
  "py_lower s = map lower_char s"

text \<open>
  The white space of \<^verbatim>\<open>str.split()\<close> and \<^verbatim>\<open>str.strip()\<close>: tab to carriage return,
  the four separators 28 to 31, the space, and the code points 133 and 160.
\<close>

definition is_space :: "char \<Rightarrow> bool" where
  "is_space c =
     (let n = (of_char c :: nat)
      in (9 \<le> n \<and> n \<le> 13) \<or> (28 \<le> n \<and> n \<le> 32) \<or> n = 133 \<or> n = 160)"

text \<open>\<^verbatim>\<open>s.strip()\<close> and \<^verbatim>\<open>s.strip(chars)\<close>: both ends are stripped.\<close>

definition py_strip :: "string \<Rightarrow> string" where
  "py_strip s = rev (dropWhile is_space (rev (dropWhile is_space s)))"

definition py_strip_chars :: "string \<Rightarrow> string \<Rightarrow> string" where
  "py_strip_chars chars s =
     rev (dropWhile (\<lambda>c. c \<in> set chars) (rev (dropWhile (\<lambda>c. c \<in> set chars) s)))"

text \<open>\<^verbatim>\<open>s.split()\<close>: the maximal runs of characters that are not white space.\<close>

function py_split :: "string \<Rightarrow> string list" where
  "py_split s =
     (let s' = dropWhile is_space s
      in if s' = [] then []
         else takeWhile (\<lambda>c. \<not> is_space c) s' # py_split (dropWhile (\<lambda>c. \<not> is_space c) s'))"
  by pat_completeness auto
termination
proof (relation "measure length")
  show "wf (measure length)" by simp
next
  fix s s' :: string
  assume s': "s' = dropWhile is_space s" and ne: "s' \<noteq> []"
  from ne s' have "\<not> is_space (hd s')"
    using hd_dropWhile by metis
  with ne have "length (dropWhile (\<lambda>c. \<not> is_space c) s') < length s'"
    by (cases s') (auto intro: le_imp_less_Suc length_dropWhile_le)
  also have "length s' \<le> length s"
    unfolding s' by (rule length_dropWhile_le)
  finally show "(dropWhile (\<lambda>c. \<not> is_space c) s', s) \<in> measure length"
    by simp
qed

declare py_split.simps [simp del]

text \<open>
  \<^verbatim>\<open>s.find(sub)\<close>: the index of the leftmost occurrence. The operator \<^verbatim>\<open>sub in s\<close>
  and \<^verbatim>\<open>s.split(sep, 1)\<close> use the same search.
\<close>

fun py_find :: "string \<Rightarrow> string \<Rightarrow> nat option" where
  "py_find sub [] = (if sub = [] then Some 0 else None)"
| "py_find sub (c # cs) =
     (if prefix sub (c # cs) then Some 0 else map_option Suc (py_find sub cs))"

definition py_in :: "string \<Rightarrow> string \<Rightarrow> bool" where
  "py_in sub s = (py_find sub s \<noteq> None)"

definition py_split1 :: "string \<Rightarrow> string \<Rightarrow> string list" where
  "py_split1 sep s =
     (case py_find sep s of
        None \<Rightarrow> [s]
      | Some i \<Rightarrow> [take i s, drop (i + length sep) s])"

text \<open>\<^verbatim>\<open>s.replace(old, "")\<close> for a single character \<^verbatim>\<open>old\<close>.\<close>

definition py_remove :: "char \<Rightarrow> string \<Rightarrow> string" where
  "py_remove old s = filter (\<lambda>c. c \<noteq> old) s"

text \<open>
  \<^verbatim>\<open>s.isdigit()\<close>: not empty and every character a digit; below 256 these are
  \<^verbatim>\<open>0\<close> to \<^verbatim>\<open>9\<close> and the superscripts 178, 179 and 185. \<^verbatim>\<open>int(s)\<close> reads
  decimal digits only and raises \<^verbatim>\<open>ValueError\<close> on a superscript, and also on more
  digits than the interpreter's limit, whose default
  (\<^verbatim>\<open>sys.int_info.default_max_str_digits\<close>) is 4300.
\<close>

definition int_max_str_digits :: nat where
  "int_max_str_digits = 4300"

definition is_decimal :: "char \<Rightarrow> bool" where
  "is_decimal c = (let n = (of_char c :: nat) in 48 \<le> n \<and> n \<le> 57)"

definition is_digit :: "char \<Rightarrow> bool" where
  "is_digit c = (let n = (of_char c :: nat) in (48 \<le> n \<and> n \<le> 57) \<or> n = 178 \<or> n = 179 \<or> n = 185)"

definition py_isdigit :: "string \<Rightarrow> bool" where
  "py_isdigit s = (s \<noteq> [] \<and> list_all is_digit s)"

definition py_int :: "string \<Rightarrow> py_error + int" where
  "py_int s =
     (if s \<noteq> [] \<and> list_all is_decimal s \<and> length s \<le> int_max_str_digits
      then Inr (foldl (\<lambda>acc c. 10 * acc + (of_char c - 48)) 0 s)
      else Inl ValueError)"

section \<open>Temporal phrase parser\<close>

text \<open>
  \<^verbatim>\<open>datetime.replace(hour=h, minute=0, second=0, microsecond=0)\<close>: the same day at
  \<open>h\<close> o'clock.
\<close>

definition replace_hour :: "datetime \<Rightarrow> int \<Rightarrow> datetime" where
  "replace_hour t h = (t div timedelta_days 1) * timedelta_days 1 + timedelta_hours h"

text \<open>
  The body of the \<^verbatim>\<open>try\<close> block of \<^verbatim>\<open>parse_when_text\<close>. \<open>now\<close> is the one
  reading of the clock the body makes, whichever branch runs; \<open>dtparse_parse w d\<close> is
  \<^verbatim>\<open>dtparse.parse(w, fuzzy=True, default=d)\<close>, which returns a datetime, naive or
  aware, or raises.
\<close>

definition parse_when_try ::
  "datetime \<Rightarrow> (string \<Rightarrow> datetime \<Rightarrow> py_error + parsed_datetime) \<Rightarrow> string \<Rightarrow> string
     \<Rightarrow> py_error + parsed_datetime" where
  "parse_when_try now dtparse_parse when_text text =
     (if text \<in> {''now'', ''asap'', ''today''} then Inr (Naive now)
      else if text \<in> {''tomorrow''} then Inr (Naive (replace_hour now 9 + timedelta_days 1))
      else dtparse_parse when_text now)"

text \<open>\<^verbatim>\<open>except Exception: return None\<close> turns every exception of the body into \<^verbatim>\<open>None\<close>.\<close>

definition parse_when_text ::
  "datetime \<Rightarrow> (string \<Rightarrow> datetime \<Rightarrow> py_error + parsed_datetime) \<Rightarrow> string option
     \<Rightarrow> py_error + parsed_datetime option" where
  "parse_when_text now dtparse_parse when_text =
     (if \<not> truthy_str when_text then Inr None
      else
        let text = py_strip (py_lower (the when_text))
        in (case parse_when_try now dtparse_parse (the when_text) text of
              Inr t \<Rightarrow> Inr (Some t)
            | Inl e \<Rightarrow> Inr None))"

section \<open>Scoring function\<close>

text \<open>
  The five local variables of \<^verbatim>\<open>compute_score\<close>, each as a function of what it is
  computed from. \<open>now\<close> is the reading of the clock the call makes and \<open>partial_ratio\<close>
  is \<^verbatim>\<open>fuzz.partial_ratio\<close>.
\<close>

definition price_score :: "AppointmentSlot \<Rightarrow> real" where
  "price_score slot = max 0 (1 - (of_int (price_cents slot) / 100) / 100)"

definition early_bonus :: "datetime \<Rightarrow> AppointmentSlot \<Rightarrow> real" where
  "early_bonus now slot = (if start_time slot < now + timedelta_hours 24 then 0.2 else 0)"

definition service_match ::
  "(string \<Rightarrow> string \<Rightarrow> real) \<Rightarrow> AppointmentSlot \<Rightarrow> SearchRequest \<Rightarrow> real" where
  "service_match partial_ratio slot search =
     (if truthy_str (service search)
      then partial_ratio (py_lower (or_str (service search) [])) (py_lower (service_name slot)) / 100
      else 0)"

definition stylist_match :: "AppointmentSlot \<Rightarrow> SearchRequest \<Rightarrow> real" where
  "stylist_match slot search =
     (if truthy_str (stylist search) \<and> truthy_str (stylist_name slot)
         \<and> py_in (py_lower (the (stylist search))) (py_lower (the (stylist_name slot)))
      then 1 else 0)"

definition proximity :: "AppointmentSlot \<Rightarrow> SearchRequest \<Rightarrow> real" where
  "proximity slot search =
     (if lat search \<noteq> None \<and> lng search \<noteq> None
         \<and> truthy_float (latitude slot) \<and> truthy_float (longitude slot)
      then max 0 (1 - (\<bar>the (latitude slot) - the (lat search)\<bar>
                       + \<bar>the (longitude slot) - the (lng search)\<bar>) / 0.1)
      else 0)"

definition compute_score ::
  "datetime \<Rightarrow> (string \<Rightarrow> string \<Rightarrow> real) \<Rightarrow> AppointmentSlot \<Rightarrow> SearchRequest \<Rightarrow> real" where
  "compute_score now partial_ratio slot search =
     py_round (price_score slot + early_bonus now slot
               + 0.5 * service_match partial_ratio slot search
               + 0.3 * stylist_match slot search
               + 0.5 * proximity slot search) 4"

section \<open>Normalisation\<close>

text \<open>\<^verbatim>\<open>f"{v}"\<close> for an optional string: \<^verbatim>\<open>None\<close> is formatted as its name.\<close>

definition format_opt :: "string option \<Rightarrow> string" where
  "format_opt v = (case v of None \<Rightarrow> ''None'' | Some s \<Rightarrow> s)"

text \<open>
  The body of the loop of \<^verbatim>\<open>normalize_slots\<close>: the score is stored in the raw slot
  and read back from it when the normalised slot is built.
\<close>

definition normalize_slot ::
  "datetime \<Rightarrow> (string \<Rightarrow> string \<Rightarrow> real) \<Rightarrow> AppointmentSlot \<Rightarrow> SearchRequest
     \<Rightarrow> NormalizedSlot" where
  "normalize_slot now partial_ratio s0 search =
     (let s = s0\<lparr>score := Some (compute_score now partial_ratio s0 search)\<rparr>
      in \<lparr> ns_id = provider s @ '':'' @ format_opt (provider_internal_id s),
           ns_provider = provider s,
           ns_location_name = provider_location_name s,
           ns_service_name = service_name s,
           ns_stylist_name = stylist_name s,
           ns_start_time = start_time s,
           ns_duration_minutes = duration_minutes s,
           ns_price_cents = price_cents s,
           ns_currency = currency s,
           ns_latitude = latitude s,
           ns_longitude = longitude s,
           ns_book_url = provider_url s,
           ns_score = or_float (score s) 0 \<rparr>)"

text \<open>
  \<open>nows i\<close> is the reading of the clock made when the slot at index \<open>i\<close> is scored.
\<close>

fun normalize_slots ::
  "(nat \<Rightarrow> datetime) \<Rightarrow> (string \<Rightarrow> string \<Rightarrow> real) \<Rightarrow> AppointmentSlot list \<Rightarrow> SearchRequest
     \<Rightarrow> NormalizedSlot list" where
  "normalize_slots nows partial_ratio [] search = []"
| "normalize_slots nows partial_ratio (s # slots) search =
     normalize_slot (nows 0) partial_ratio s search
       # normalize_slots (\<lambda>i. nows (Suc i)) partial_ratio slots search"

section \<open>Query interpreter\<close>

text \<open>\<^verbatim>\<open>SearchRequest(...)\<close> with the given fields; the others keep their defaults.\<close>

definition SearchRequest_new ::
  "string option \<Rightarrow> py_float option \<Rightarrow> string option \<Rightarrow> string option \<Rightarrow> string option
     \<Rightarrow> real option \<Rightarrow> real option \<Rightarrow> SearchRequest" where
  "SearchRequest_new q b sv w st la lo =
     \<lparr> query = q, when_phrase = w, budget_max = b, distance_miles_max = None,
       service = sv, stylist = st, lat = la, lng = lo, limit = 25 \<rparr>"

text \<open>The loop over the tokens: a later token below 200 overwrites the budget.\<close>

fun budget_loop :: "string list \<Rightarrow> py_float option \<Rightarrow> py_error + py_float option" where
  "budget_loop [] budget = Inr budget"
| "budget_loop (token # tokens) budget =
     (if py_isdigit token
      then (case py_int token of
              Inl e \<Rightarrow> Inl e
            | Inr v \<Rightarrow> if v < 200 then budget_loop tokens (Some (Finite (of_int v)))
                      else budget_loop tokens budget)
      else budget_loop tokens budget)"

text \<open>\<^verbatim>\<open>q.split("with ", 1)[1].split()[0].strip(".,!")\<close>\<close>

definition stylist_of :: "string \<Rightarrow> py_error + string" where
  "stylist_of q =
     (case py_index (py_split1 ''with '' q) 1 of
        Inl e \<Rightarrow> Inl e
      | Inr part \<Rightarrow>
          (case py_index (py_split part) 0 of
             Inl e \<Rightarrow> Inl e
           | Inr token \<Rightarrow> Inr (py_strip_chars ''.,!'' token)))"

definition conversational_to_search :: "string option \<Rightarrow> py_error + SearchRequest" where
  "conversational_to_search query' =
     (if \<not> truthy_str query' then Inr (SearchRequest_new None None None None None None None)
      else
        let q = py_lower (the query')
        in (case budget_loop (py_split (py_remove (CHR '','') (py_remove (CHR ''$'') q))) None of
              Inl e \<Rightarrow> Inl e
            | Inr budget \<Rightarrow>
                let service' = (if py_in ''fade'' q then Some ''fade''
                                else if py_in ''women'' q then Some ''Women's Cut''
                                else if py_in ''men'' q then Some ''Men's Cut''
                                else None);
                    when' = (if py_in ''today'' q \<or> py_in ''asap'' q then Some ''today''
                             else if py_in ''tomorrow'' q then Some ''tomorrow''
                             else None)
                in (case (if py_in ''with '' q then map_sum id Some (stylist_of q) else Inr None) of
                      Inl e \<Rightarrow> Inl e
                    | Inr stylist' \<Rightarrow>
                        Inr (SearchRequest_new query' budget service' when' stylist' None None))))"

section \<open>Aggregation pipeline\<close>

text \<open>
  The two tests of the filter loop; a slot for which one of them is true is skipped.
  \<^verbatim>\<open>and\<close> evaluates its right operand only if the left one is true, so without a
  parsed time nothing is compared.
\<close>

definition over_budget :: "SearchRequest \<Rightarrow> AppointmentSlot \<Rightarrow> bool" where
  "over_budget search s =
     (budget_max search \<noteq> None
      \<and> float_gt (of_int (price_cents s) / 100) (the (budget_max search)))"

definition before_when :: "parsed_datetime option \<Rightarrow> AppointmentSlot \<Rightarrow> py_error + bool" where
  "before_when parsed_when s =
     (case parsed_when of None \<Rightarrow> Inr False | Some t \<Rightarrow> naive_lt (start_time s) t)"

text \<open>
  The filter loop over \<^verbatim>\<open>raw_results\<close>, with the list \<^verbatim>\<open>filtered\<close> built so far. The
  second test is reached only for a slot that the first one did not skip.
\<close>

fun filter_loop ::
  "SearchRequest \<Rightarrow> parsed_datetime option \<Rightarrow> AppointmentSlot list \<Rightarrow> AppointmentSlot list
     \<Rightarrow> py_error + AppointmentSlot list" where
  "filter_loop search parsed_when [] filtered = Inr filtered"
| "filter_loop search parsed_when (s # raw_results) filtered =
     (if over_budget search s then filter_loop search parsed_when raw_results filtered
      else (case before_when parsed_when s of
              Inl e \<Rightarrow> Inl e
            | Inr skip \<Rightarrow>
                if skip then filter_loop search parsed_when raw_results filtered
                else filter_loop search parsed_when raw_results (filtered @ [s])))"

text \<open>The key of the sort; tuples are compared lexicographically.\<close>

definition sort_key_of :: "NormalizedSlot \<Rightarrow> real \<times> int \<times> datetime" where
  "sort_key_of x = (- ns_score x, ns_price_cents x, ns_start_time x)"

text \<open>
  \<open>raw_results_groups\<close> is what \<^verbatim>\<open>asyncio.gather\<close> returned, one list for each
  connector; \<open>now\<close> is the reading of the clock made by \<^verbatim>\<open>parse_when_text\<close> and
  \<open>nows\<close> the readings made by \<^verbatim>\<open>normalize_slots\<close>. \<^verbatim>\<open>list.sort\<close> is stable, and
  so is \<open>sort_key\<close>.
\<close>

definition search_haircuts_internal ::
  "datetime \<Rightarrow> (nat \<Rightarrow> datetime) \<Rightarrow> (string \<Rightarrow> datetime \<Rightarrow> py_error + parsed_datetime)
     \<Rightarrow> (string \<Rightarrow> string \<Rightarrow> real) \<Rightarrow> AppointmentSlot list list \<Rightarrow> SearchRequest
     \<Rightarrow> py_error + NormalizedSlot list" where
  "search_haircuts_internal now nows dtparse_parse partial_ratio raw_results_groups search =
     (case parse_when_text now dtparse_parse (when_phrase search) of
        Inl e \<Rightarrow> Inl e
      | Inr parsed_when \<Rightarrow>
          let raw_results = concat raw_results_groups
          in (case filter_loop search parsed_when raw_results [] of
                Inl e \<Rightarrow> Inl e
              | Inr filtered \<Rightarrow>
                  let normalized = normalize_slots nows partial_ratio filtered search;
                      normalized = sort_key sort_key_of normalized
                  in Inr (py_slice_to normalized (limit search))))"

section \<open>Example data\<close>

text \<open>
  Two slots as the connectors build them, variants of them, a request, and fixed values
  for the clock and the two library functions.
\<close>

definition slot_a :: AppointmentSlot where
  "slot_a =
     \<lparr> provider = ''square'', provider_location_id = ''sq_loc_1'',
       provider_location_name = ''Fade Factory'', stylist_name = Some ''Alex'',
       service_name = ''Fade + Beard'', start_time = 36000000000, duration_minutes = 30,
       price_cents = 4000, currency = ''USD'', latitude = Some 37.7749,
       longitude = Some (- 122.4194), provider_url = Some ''https://example.com/square/booking'',
       provider_internal_id = Some ''sq_0'', score = None \<rparr>"

definition slot_b :: AppointmentSlot where
  "slot_b =
     \<lparr> provider = ''vagaro'', provider_location_id = ''vg_loc_2'',
       provider_location_name = ''Salon Nova'', stylist_name = None,
       service_name = ''Trim'', start_time = 180000000000, duration_minutes = 45,
       price_cents = 2000, currency = ''USD'', latitude = Some 37.78,
       longitude = Some (- 122.41), provider_url = Some ''https://example.com/vagaro/booking'',
       provider_internal_id = Some ''vg_3'', score = None \<rparr>"

definition slot_c :: AppointmentSlot where
  "slot_c = slot_a\<lparr>start_time := 72000000000, provider_internal_id := Some ''sq_1''\<rparr>"

definition slot_d :: AppointmentSlot where
  "slot_d = slot_b\<lparr>price_cents := 5000, provider_internal_id := Some ''vg_4''\<rparr>"

definition search_a :: SearchRequest where
  "search_a =
     \<lparr> query = None, when_phrase = None, budget_max = Some (Finite 45),
       distance_miles_max = None,
       service = Some ''fade'', stylist = Some ''alex'', lat = Some 37.7749,
       lng = Some (- 122.4194), limit = 25 \<rparr>"

text \<open>What the two connectors returned, in two runs.\<close>

definition square_results :: "AppointmentSlot list" where
  "square_results = [slot_c, slot_a]"

definition vagaro_results :: "AppointmentSlot list" where
  "vagaro_results = [slot_b, slot_d]"



definition slot_past :: AppointmentSlot where
  "slot_past = slot_a\<lparr>start_time := - 3600000000\<rparr>"

definition slot_equator :: AppointmentSlot where
  "slot_equator = slot_a\<lparr>latitude := Some 0\<rparr>"

definition search_equator :: SearchRequest where
  "search_equator = search_a\<lparr>lat := Some 0\<rparr>"




definition clock_zero :: "nat \<Rightarrow> datetime" where
  "clock_zero i = 0"

definition ratio_full :: "string \<Rightarrow> string \<Rightarrow> real" where
  "ratio_full a b = 100"

definition search_nan :: SearchRequest where
  "search_nan = search_a\<lparr>budget_max := Some NaN\<rparr>"

definition search_utc :: SearchRequest where
  "search_utc = search_a\<lparr>when_phrase := Some ''5pm UTC''\<rparr>"

definition dtparse_fails :: "string \<Rightarrow> datetime \<Rightarrow> py_error + parsed_datetime" where
  "dtparse_fails w d = Inl ParserError"

text \<open>A parser that finds a time zone in the phrase and returns an aware datetime.\<close>

definition dtparse_aware :: "string \<Rightarrow> datetime \<Rightarrow> py_error + parsed_datetime" where
  "dtparse_aware w d = Inr (Aware (replace_hour d 17))"

section \<open>Normalisation: what is copied\<close>

lemma length_normalize_slots:
  "length (normalize_slots nows pr slots search) = length slots"
  by (induction slots arbitrary: nows) simp_all

lemma nth_normalize_slots:
  "i < length slots \<Longrightarrow>
     normalize_slots nows pr slots search ! i = normalize_slot (nows i) pr (slots ! i) search"
proof (induction slots arbitrary: nows i)
  case Nil
  then show ?case by simp
next
  case (Cons s slots)
  show ?case
  proof (cases i)
    case 0
    then show ?thesis by simp
  next
    case (Suc k)
    with Cons.prems have "k < length slots" by simp
    from Cons.IH [OF this, of "\<lambda>i. nows (Suc i)"] Suc show ?thesis by simp
  qed
qed

lemma in_normalize_slots:
  assumes "r \<in> set (normalize_slots nows pr slots search)"
  shows "\<exists>i < length slots. r = normalize_slot (nows i) pr (slots ! i) search"
proof -
  from assms obtain i where "i < length (normalize_slots nows pr slots search)"
    and "normalize_slots nows pr slots search ! i = r"
    by (auto simp: in_set_conv_nth)
  then show ?thesis
    by (auto simp: length_normalize_slots nth_normalize_slots)
qed

lemma ns_score_normalize_slot:
  "ns_score (normalize_slot now pr s search) = compute_score now pr s search"
  by (simp add: normalize_slot_def or_float_def)

text \<open>
  Claim C10. For every list of raw slots and every request, \<open>normalize_slots\<close> returns a
  list of the same length and in the same order: the normalised slot at index \<open>i\<close> copies
  provider, location name, service name, stylist name, start time, duration, price,
  currency, latitude, longitude and booking URL from the raw slot at index \<open>i\<close>, and its
  id is composed of the provider and the provider's internal id.
\<close>

theorem normalize_slots_frame:
  "length (normalize_slots nows pr slots search) = length slots \<and>
   (\<forall>i < length slots.
      ns_provider (normalize_slots nows pr slots search ! i) = provider (slots ! i) \<and>
      ns_location_name (normalize_slots nows pr slots search ! i)
        = provider_location_name (slots ! i) \<and>
      ns_service_name (normalize_slots nows pr slots search ! i) = service_name (slots ! i) \<and>
      ns_stylist_name (normalize_slots nows pr slots search ! i) = stylist_name (slots ! i) \<and>
      ns_start_time (normalize_slots nows pr slots search ! i) = start_time (slots ! i) \<and>
      ns_duration_minutes (normalize_slots nows pr slots search ! i)
        = duration_minutes (slots ! i) \<and>
      ns_price_cents (normalize_slots nows pr slots search ! i) = price_cents (slots ! i) \<and>
      ns_currency (normalize_slots nows pr slots search ! i) = currency (slots ! i) \<and>
      ns_latitude (normalize_slots nows pr slots search ! i) = latitude (slots ! i) \<and>
      ns_longitude (normalize_slots nows pr slots search ! i) = longitude (slots ! i) \<and>
      ns_book_url (normalize_slots nows pr slots search ! i) = provider_url (slots ! i) \<and>
      ns_id (normalize_slots nows pr slots search ! i)
        = provider (slots ! i) @ '':'' @ format_opt (provider_internal_id (slots ! i)))"
  by (simp add: length_normalize_slots nth_normalize_slots normalize_slot_def)

theorem normalize_slots_frame_witness:
  "length (normalize_slots clock_zero ratio_full [slot_a, slot_b] search_a) = 2 \<and>
   ns_provider (normalize_slots clock_zero ratio_full [slot_a, slot_b] search_a ! 1) = ''vagaro'' \<and>
   ns_price_cents (normalize_slots clock_zero ratio_full [slot_a, slot_b] search_a ! 1) = 2000 \<and>
   ns_book_url (normalize_slots clock_zero ratio_full [slot_a, slot_b] search_a ! 1)
     = Some ''https://example.com/vagaro/booking'' \<and>
   ns_id (normalize_slots clock_zero ratio_full [slot_a, slot_b] search_a ! 1) = ''vagaro:vg_3''"
proof -
  note frame = normalize_slots_frame [of clock_zero ratio_full "[slot_a, slot_b]" search_a]
  have len: "length (normalize_slots clock_zero ratio_full [slot_a, slot_b] search_a) = 2"
    using frame by simp
  have "(1::nat) < length [slot_a, slot_b]" by simp
  with frame [THEN conjunct2, rule_format, of 1] len
  show ?thesis by (simp add: slot_b_def format_opt_def)
qed

section \<open>Aggregation pipeline: order, length, budget, score\<close>

lemma parse_when_text_Inr: "\<exists>pw. parse_when_text now dtp w = Inr pw"
  by (simp add: parse_when_text_def Let_def split: sum.split)

text \<open>If the filter loop returns, it returns the slots that neither test skipped, in order.\<close>

lemma filter_loop_Inr:
  "filter_loop search pw raw acc = Inr out \<Longrightarrow>
     out = acc @ filter (\<lambda>s. \<not> over_budget search s \<and> before_when pw s = Inr False) raw"
proof (induction raw arbitrary: acc)
  case Nil
  then show ?case by simp
next
  case (Cons s raw)
  show ?case
  proof (cases "over_budget search s")
    case True
    with Cons.prems have "filter_loop search pw raw acc = Inr out" by simp
    from Cons.IH [OF this] True show ?thesis by simp
  next
    case False
    show ?thesis
    proof (cases "before_when pw s")
      case (Inl e)
      with False Cons.prems show ?thesis by simp
    next
      case (Inr skip)
      show ?thesis
      proof (cases skip)
        case True
        with False Inr Cons.prems have "filter_loop search pw raw acc = Inr out" by simp
        from Cons.IH [OF this] False Inr True show ?thesis by simp
      next
        case no: False
        with False Inr Cons.prems have "filter_loop search pw raw (acc @ [s]) = Inr out" by simp
        from Cons.IH [OF this] False Inr no show ?thesis by simp
      qed
    qed
  qed
qed

text \<open>Without a parsed time, or with a naive one, the filter loop returns.\<close>

lemma filter_loop_returns:
  assumes "\<And>t. pw \<noteq> Some (Aware t)"
  shows "\<exists>out. filter_loop search pw raw acc = Inr out"
proof (induction raw arbitrary: acc)
  case Nil
  show ?case by simp
next
  case (Cons s raw)
  have "\<exists>skip. before_when pw s = Inr skip"
  proof (cases pw)
    case None
    then have "before_when pw s = Inr False" by (simp add: before_when_def)
    then show ?thesis ..
  next
    case (Some t)
    with assms obtain u where "t = Naive u" by (cases t) auto
    with Some have "before_when pw s = Inr (start_time s < u)" by (simp add: before_when_def)
    then show ?thesis ..
  qed
  then obtain skip where "before_when pw s = Inr skip" ..
  with Cons.IH show ?case by simp
qed

lemma search_haircuts_internal_Inr:
  assumes "search_haircuts_internal now nows dtp pr groups search = Inr res"
  shows "\<exists>pw filtered.
           parse_when_text now dtp (when_phrase search) = Inr pw \<and>
           filter_loop search pw (concat groups) [] = Inr filtered \<and>
           res = py_slice_to (sort_key sort_key_of (normalize_slots nows pr filtered search))
                   (limit search)"
  using assms by (auto simp: search_haircuts_internal_def Let_def split: sum.splits)

lemma set_py_slice_to: "set (py_slice_to xs k) \<subseteq> set xs"
  by (simp add: py_slice_to_def set_take_subset)

lemma sorted_py_slice_to:
  assumes "sorted (map f xs)"
  shows "sorted (map f (py_slice_to xs k))"
proof -
  have "sorted (take n (map f xs))" for n
    using assms by (rule sorted_wrt_take)
  then show ?thesis
    by (simp add: py_slice_to_def take_map)
qed


lemma sort_key_of_le:
  "sort_key_of x \<le> sort_key_of y \<longleftrightarrow>
     ns_score y < ns_score x \<or>
     ns_score y = ns_score x \<and>
       (ns_price_cents x < ns_price_cents y \<or>
        ns_price_cents x = ns_price_cents y \<and> ns_start_time x \<le> ns_start_time y)"
  by (auto simp: sort_key_of_def less_eq_prod_def)

lemma sorted_result:
  assumes "search_haircuts_internal now nows dtp pr groups search = Inr res"
  shows "sorted (map sort_key_of res)"
proof -
  from search_haircuts_internal_Inr [OF assms] obtain filtered
    where "res = py_slice_to (sort_key sort_key_of (normalize_slots nows pr filtered search))
                   (limit search)"
    by blast
  then show ?thesis
    by (simp add: sorted_py_slice_to)
qed

text \<open>
  Every slot of a returned result is the normalised slot of a raw slot that the budget
  test did not skip.
\<close>

lemma result_from_raw:
  assumes "search_haircuts_internal now nows dtp pr groups search = Inr res"
    and "r \<in> set res"
  shows "\<exists>s \<in> set (concat groups). \<exists>k.
           \<not> over_budget search s \<and> r = normalize_slot (nows k) pr s search"
proof -
  from search_haircuts_internal_Inr [OF assms(1)] obtain pw filtered
    where fl: "filter_loop search pw (concat groups) [] = Inr filtered"
      and res: "res = py_slice_to (sort_key sort_key_of
                        (normalize_slots nows pr filtered search)) (limit search)"
    by blast
  from assms(2) have "r \<in> set (normalize_slots nows pr filtered search)"
    unfolding res using set_py_slice_to by fastforce
  then obtain i where i: "i < length filtered"
    and r: "r = normalize_slot (nows i) pr (filtered ! i) search"
    using in_normalize_slots by blast
  from i have "filtered ! i \<in> set filtered" by simp
  with filter_loop_Inr [OF fl]
  have "filtered ! i \<in> set (concat groups)" and "\<not> over_budget search (filtered ! i)"
    by simp_all
  with r show ?thesis by blast
qed

text \<open>
  The pipeline on four slots: \<open>slot_d\<close> is over budget, the others are ranked. With a
  phrase in which the parser finds a time zone, the first comparison of the filter loop
  raises.
\<close>

lemma pipeline_example:
  "search_haircuts_internal 0 clock_zero dtparse_fails ratio_full
       [square_results, vagaro_results] search_a
     = Inr [normalize_slot 0 ratio_full slot_a search_a,
            normalize_slot 0 ratio_full slot_c search_a,
            normalize_slot 0 ratio_full slot_b search_a]"
  by code_simp

lemma pipeline_aware_raises:
  "search_haircuts_internal 0 clock_zero dtparse_aware ratio_full
       [square_results, vagaro_results] search_utc
     = Inl TypeError"
  by code_simp

text \<open>
  Claim C1. The sequence returned by the pipeline is sorted by descending score, then
  ascending price, then ascending start time: of two results the earlier one has the
  greater or equal score; if the scores are equal, the lower or equal price; if scores
  and prices are equal, the earlier or equal start time.
\<close>

theorem result_sorted:
  assumes "search_haircuts_internal now nows dtp pr groups search = Inr res"
  shows "\<forall>i j. i < j \<and> j < length res \<longrightarrow>
        ns_score (res ! j) \<le> ns_score (res ! i) \<and>
        (ns_score (res ! i) = ns_score (res ! j) \<longrightarrow>
           ns_price_cents (res ! i) \<le> ns_price_cents (res ! j)) \<and>
        (ns_score (res ! i) = ns_score (res ! j) \<and>
         ns_price_cents (res ! i) = ns_price_cents (res ! j) \<longrightarrow>
           ns_start_time (res ! i) \<le> ns_start_time (res ! j))"
proof -
  have srt: "sorted (map sort_key_of res)"
    using assms by (rule sorted_result)
  have "sort_key_of (res ! i) \<le> sort_key_of (res ! j)" if "i < j" "j < length res" for i j
  proof -
    from that have "map sort_key_of res ! i \<le> map sort_key_of res ! j"
      using srt by (intro sorted_nth_mono) simp_all
    with that show ?thesis by simp
  qed
  then show ?thesis
    by (fastforce simp: sort_key_of_le)
qed

theorem result_sorted_witness:
  "search_haircuts_internal 0 clock_zero dtparse_fails ratio_full
       [square_results, vagaro_results] search_a
     = Inr [normalize_slot 0 ratio_full slot_a search_a,
            normalize_slot 0 ratio_full slot_c search_a,
            normalize_slot 0 ratio_full slot_b search_a] \<and>
   ns_score (normalize_slot 0 ratio_full slot_a search_a)
     = ns_score (normalize_slot 0 ratio_full slot_c search_a) \<and>
   ns_price_cents (normalize_slot 0 ratio_full slot_a search_a)
     = ns_price_cents (normalize_slot 0 ratio_full slot_c search_a) \<and>
   ns_start_time (normalize_slot 0 ratio_full slot_a search_a)
     \<le> ns_start_time (normalize_slot 0 ratio_full slot_c search_a) \<and>
   ns_score (normalize_slot 0 ratio_full slot_b search_a)
     \<le> ns_score (normalize_slot 0 ratio_full slot_a search_a)"
proof -
  let ?na = "normalize_slot 0 ratio_full slot_a search_a"
  let ?nc = "normalize_slot 0 ratio_full slot_c search_a"
  let ?nb = "normalize_slot 0 ratio_full slot_b search_a"
  note ev = pipeline_example
  have sc: "ns_score ?na = ns_score ?nc"
    by code_simp
  have pc: "ns_price_cents ?na = ns_price_cents ?nc"
    by code_simp
  note ord = result_sorted [OF ev]
  from ord [rule_format, of 0 1] sc pc
  have st: "ns_start_time ?na \<le> ns_start_time ?nc" by simp
  from ord [rule_format, of 0 2]
  have sb: "ns_score ?nb \<le> ns_score ?na" by simp
  from ev sc pc st sb show ?thesis by blast
qed

text \<open>
  Claim C4, as stated, fails: a budget that is not-a-number is a value of
  \<^verbatim>\<open>Optional[float]\<close>, the test \<^verbatim>\<open>price > budget\<close> is false for it and no slot is
  dropped, and \<^verbatim>\<open>price <= budget\<close> is false for every slot returned.
\<close>

theorem budget_respected_counterexample:
  "budget_max search_nan = Some NaN \<and>
   search_haircuts_internal 0 clock_zero dtparse_fails ratio_full
       [square_results, vagaro_results] search_nan
     = Inr [normalize_slot 0 ratio_full slot_a search_nan,
            normalize_slot 0 ratio_full slot_c search_nan,
            normalize_slot 0 ratio_full slot_b search_nan,
            normalize_slot 0 ratio_full slot_d search_nan] \<and>
   \<not> float_le (real_of_int (ns_price_cents (normalize_slot 0 ratio_full slot_d search_nan)) / 100)
        NaN"
  by code_simp

text \<open>
  Claim C4, amended. For every request whose \<open>budget_max\<close> is set to a value \<open>B\<close> that
  is not not-a-number, every slot in the sequence returned by the pipeline has a price in
  dollars of at most \<open>B\<close>.
\<close>

theorem budget_respected:
  assumes "search_haircuts_internal now nows dtp pr groups search = Inr res"
    and "budget_max search = Some B" and "B \<noteq> NaN"
  shows "\<forall>r \<in> set res. float_le (of_int (ns_price_cents r) / 100) B"
proof
  fix r
  assume "r \<in> set res"
  from result_from_raw [OF assms(1) this] obtain s k
    where nb: "\<not> over_budget search s" and r: "r = normalize_slot (nows k) pr s search"
    by blast
  from nb assms(2) have "\<not> float_gt (of_int (price_cents s) / 100) B"
    by (simp add: over_budget_def)
  with assms(3) have "float_le (of_int (price_cents s) / 100) B"
    by (cases B) simp_all
  then show "float_le (of_int (ns_price_cents r) / 100) B"
    by (simp add: r normalize_slot_def)
qed

theorem budget_respected_witness:
  "search_haircuts_internal 0 clock_zero dtparse_fails ratio_full
       [square_results, vagaro_results] search_a
     = Inr [normalize_slot 0 ratio_full slot_a search_a,
            normalize_slot 0 ratio_full slot_c search_a,
            normalize_slot 0 ratio_full slot_b search_a] \<and>
   budget_max search_a = Some (Finite 45) \<and> Finite 45 \<noteq> NaN \<and>
   real_of_int (ns_price_cents (normalize_slot 0 ratio_full slot_b search_a)) / 100 \<le> 45"
proof -
  have b: "budget_max search_a = Some (Finite 45)"
    by (simp add: search_a_def)
  have n: "Finite 45 \<noteq> NaN"
    by simp
  from budget_respected [OF pipeline_example b n]
  have "float_le (real_of_int (ns_price_cents (normalize_slot 0 ratio_full slot_b search_a)) / 100)
          (Finite 45)"
    by simp
  then have "real_of_int (ns_price_cents (normalize_slot 0 ratio_full slot_b search_a)) / 100 \<le> 45"
    by simp
  with b n pipeline_example show ?thesis by blast
qed

text \<open>
  Claim C8. The score of the normalised slot built from a raw slot is the value of
  \<open>compute_score\<close> for that raw slot and the request, at the reading of the clock made
  for that slot: the default \<open>0.0\<close> of \<^verbatim>\<open>s.score or 0.0\<close> replaces only a computed
  score that is itself zero. Sorting and slicing leave the slots as they are, so every
  slot the pipeline returns is the normalised slot of one of the raw slots and carries
  the score computed for it.
\<close>

theorem score_is_compute_score:
  "(\<forall>i < length slots.
      ns_score (normalize_slots nows pr slots search ! i)
        = compute_score (nows i) pr (slots ! i) search) \<and>
   (\<forall>res. search_haircuts_internal now nows dtp pr groups search = Inr res \<longrightarrow>
      (\<forall>r \<in> set res. \<exists>s \<in> set (concat groups). \<exists>k.
         r = normalize_slot (nows k) pr s search \<and>
         ns_score r = compute_score (nows k) pr s search))"
proof -
  have a: "\<forall>i < length slots.
      ns_score (normalize_slots nows pr slots search ! i)
        = compute_score (nows i) pr (slots ! i) search"
    by (simp add: nth_normalize_slots ns_score_normalize_slot)
  have b: "\<exists>s \<in> set (concat groups). \<exists>k.
         r = normalize_slot (nows k) pr s search \<and>
         ns_score r = compute_score (nows k) pr s search"
    if "search_haircuts_internal now nows dtp pr groups search = Inr res" "r \<in> set res"
    for res r
  proof -
    from result_from_raw [OF that] obtain s k
      where "s \<in> set (concat groups)" and "r = normalize_slot (nows k) pr s search"
      by blast
    moreover from this have "ns_score r = compute_score (nows k) pr s search"
      by (simp only: ns_score_normalize_slot)
    ultimately show ?thesis by blast
  qed
  from a b show ?thesis by blast
qed

theorem score_is_compute_score_witness:
  "(0::nat) < length [slot_a, slot_b] \<and>
   ns_score (normalize_slots clock_zero ratio_full [slot_a, slot_b] search_a ! 0)
     = compute_score (clock_zero 0) ratio_full slot_a search_a \<and>
   search_haircuts_internal 0 clock_zero dtparse_fails ratio_full
       [square_results, vagaro_results] search_a
     = Inr [normalize_slot 0 ratio_full slot_a search_a,
            normalize_slot 0 ratio_full slot_c search_a,
            normalize_slot 0 ratio_full slot_b search_a] \<and>
   (\<exists>s \<in> set (concat [square_results, vagaro_results]). \<exists>k.
      normalize_slot 0 ratio_full slot_b search_a = normalize_slot (clock_zero k) ratio_full s search_a \<and>
      ns_score (normalize_slot 0 ratio_full slot_b search_a)
        = compute_score (clock_zero k) ratio_full s search_a)"
proof -
  note both = score_is_compute_score [of "[slot_a, slot_b]" clock_zero ratio_full search_a
      0 dtparse_fails "[square_results, vagaro_results]"]
  have h: "(0::nat) < length [slot_a, slot_b]" by simp
  from both [THEN conjunct1, rule_format, OF h]
  have a: "ns_score (normalize_slots clock_zero ratio_full [slot_a, slot_b] search_a ! 0)
     = compute_score (clock_zero 0) ratio_full slot_a search_a"
    by simp
  have m: "normalize_slot 0 ratio_full slot_b search_a
      \<in> set [normalize_slot 0 ratio_full slot_a search_a,
              normalize_slot 0 ratio_full slot_c search_a,
              normalize_slot 0 ratio_full slot_b search_a]"
    by simp
  from both [THEN conjunct2, rule_format, OF pipeline_example m]
  have b: "\<exists>s \<in> set (concat [square_results, vagaro_results]). \<exists>k.
      normalize_slot 0 ratio_full slot_b search_a = normalize_slot (clock_zero k) ratio_full s search_a \<and>
      ns_score (normalize_slot 0 ratio_full slot_b search_a)
        = compute_score (clock_zero k) ratio_full s search_a" .
  from h a pipeline_example b show ?thesis by blast
qed




section \<open>Temporal phrase parser: no exception escapes\<close>

text \<open>
  Claim C7. \<open>parse_when_text\<close> returns for every input and never raises: an absent or
  empty phrase gives \<^verbatim>\<open>None\<close>; for a phrase outside the fixed vocabulary an
  exception of the fuzzy parser gives \<^verbatim>\<open>None\<close>, and a datetime it returns is the
  result.
\<close>

theorem parse_when_text_total:
  "parse_when_text now dtp None = Inr None \<and>
   parse_when_text now dtp (Some []) = Inr None \<and>
   (\<exists>r. parse_when_text now dtp w = Inr r) \<and>
   (\<forall>s e. s \<noteq> [] \<and> py_strip (py_lower s) \<notin> {''now'', ''asap'', ''today'', ''tomorrow''}
            \<and> dtp s now = Inl e
      \<longrightarrow> parse_when_text now dtp (Some s) = Inr None) \<and>
   (\<forall>s t. s \<noteq> [] \<and> py_strip (py_lower s) \<notin> {''now'', ''asap'', ''today'', ''tomorrow''}
            \<and> dtp s now = Inr t
      \<longrightarrow> parse_when_text now dtp (Some s) = Inr (Some t))"
proof -
  have a: "parse_when_text now dtp None = Inr None"
    and b: "parse_when_text now dtp (Some []) = Inr None"
    by (simp_all add: parse_when_text_def truthy_str_def)
  have c: "\<exists>r. parse_when_text now dtp w = Inr r"
    by (rule parse_when_text_Inr)
  have d: "parse_when_text now dtp (Some s) = Inr None"
    if "s \<noteq> []" "py_strip (py_lower s) \<notin> {''now'', ''asap'', ''today'', ''tomorrow''}"
      "dtp s now = Inl e" for s e
    using that by (simp add: parse_when_text_def truthy_str_def parse_when_try_def)
  have e: "parse_when_text now dtp (Some s) = Inr (Some t)"
    if "s \<noteq> []" "py_strip (py_lower s) \<notin> {''now'', ''asap'', ''today'', ''tomorrow''}"
      "dtp s now = Inr t" for s t
    using that by (simp add: parse_when_text_def truthy_str_def parse_when_try_def)
  from a b c d e show ?thesis by blast
qed

theorem parse_when_text_total_witness:
  "''someday'' \<noteq> [] \<and>
   py_strip (py_lower ''someday'') \<notin> {''now'', ''asap'', ''today'', ''tomorrow''} \<and>
   dtparse_fails ''someday'' 0 = Inl ParserError \<and>
   parse_when_text 0 dtparse_fails (Some ''someday'') = Inr None"
proof -
  have h: "''someday'' \<noteq> [] \<and>
      py_strip (py_lower ''someday'') \<notin> {''now'', ''asap'', ''today'', ''tomorrow''} \<and>
      dtparse_fails ''someday'' 0 = Inl ParserError"
    by code_simp
  note total = parse_when_text_total [of 0 dtparse_fails]
  from total [THEN conjunct2, THEN conjunct2, THEN conjunct2, THEN conjunct1,
      rule_format, of "''someday''" ParserError] h
  have "parse_when_text 0 dtparse_fails (Some ''someday'') = Inr None"
    by blast
  with h show ?thesis by blast
qed

section \<open>Scoring function: earliness and proximity\<close>

text \<open>
  Claim C5, as stated, fails: a slot that started an hour before the current instant
  receives the bonus of 0.2, and its score is that of \<open>slot_a\<close>, which starts ten hours
  after it.
\<close>

theorem early_bonus_counterexample:
  "early_bonus 0 slot_past = 0.2 \<and>
   \<not> (0 < start_time slot_past \<and> start_time slot_past < 0 + timedelta_hours 24) \<and>
   compute_score 0 ratio_full slot_past search_a = compute_score 0 ratio_full slot_a search_a"
  by code_simp

text \<open>
  Claim C5, amended. The earliness term is 0.2 if and only if the slot starts strictly
  before the current instant plus 24 hours, and 0 otherwise; there is no lower bound, so
  a slot starting at or before the current instant receives the bonus. The term is one
  summand of the rounded score.
\<close>

theorem early_bonus_window:
  "(early_bonus now slot = 0.2 \<longleftrightarrow> start_time slot < now + 86400000000) \<and>
   (early_bonus now slot = 0 \<longleftrightarrow> \<not> start_time slot < now + 86400000000) \<and>
   (start_time slot \<le> now \<longrightarrow> early_bonus now slot = 0.2) \<and>
   compute_score now pr slot search
     = py_round (price_score slot + early_bonus now slot
                 + 0.5 * service_match pr slot search
                 + 0.3 * stylist_match slot search
                 + 0.5 * proximity slot search) 4"
  by (simp add: early_bonus_def timedelta_hours_def compute_score_def)

theorem early_bonus_window_witness:
  "start_time slot_past \<le> 0 \<and> early_bonus 0 slot_past = 0.2 \<and>
   \<not> start_time slot_b < 0 + 86400000000 \<and> early_bonus 0 slot_b = 0"
proof -
  have p: "start_time slot_past \<le> 0"
    by (simp add: slot_past_def)
  have b: "\<not> start_time slot_b < 0 + 86400000000"
    by (simp add: slot_b_def)
  from early_bonus_window [of 0 slot_past] p
  have "early_bonus 0 slot_past = 0.2" by blast
  moreover from early_bonus_window [of 0 slot_b] b
  have "early_bonus 0 slot_b = 0" by blast
  ultimately show ?thesis using p b by blast
qed

text \<open>
  Claim C6 on the code: a slot on the equator, at the coordinates of the search. The
  test of the slot's coordinates is their truth value, and \<open>0.0\<close> is false, so the
  proximity is 0 where the formula of the claim gives 1 (a contribution of 0.5).
\<close>

theorem proximity_zero_latitude:
  "latitude slot_equator = Some 0 \<and> lat search_equator = Some 0 \<and>
   longitude slot_equator = lng search_equator \<and>
   proximity slot_equator search_equator = 0 \<and>
   max 0 (1 - (\<bar>the (latitude slot_equator) - the (lat search_equator)\<bar>
               + \<bar>the (longitude slot_equator) - the (lng search_equator)\<bar>) / 0.1) = (1::real) \<and>
   compute_score 0 ratio_full slot_equator search_equator = 1.6"
  by code_simp

text \<open>
  Where both coordinates of the slot are present and not zero the proximity is the
  formula, and where a coordinate is absent it is 0.
\<close>

lemma proximity_present:
  assumes "lat search = Some a" "lng search = Some b"
    and "latitude slot = Some x" "longitude slot = Some y" and "x \<noteq> 0" "y \<noteq> 0"
  shows "proximity slot search = max 0 (1 - (\<bar>x - a\<bar> + \<bar>y - b\<bar>) / 0.1)"
  using assms by (simp add: proximity_def truthy_float_def)

lemma proximity_absent:
  assumes "lat search = None \<or> lng search = None \<or> latitude slot = None \<or> longitude slot = None"
  shows "proximity slot search = 0"
  using assms by (auto simp: proximity_def truthy_float_def)

section \<open>Query interpreter: exceptions and stylist extraction\<close>

text \<open>
  Claim C2 on the code: for a query that ends with \<^verbatim>\<open>with \<close> the list of tokens after
  it is empty and its first element is read, which raises \<^verbatim>\<open>IndexError\<close>.
\<close>

theorem conversational_to_search_raises:
  "conversational_to_search (Some ''with '') = Inl IndexError \<and>
   conversational_to_search (Some ''fade with '') = Inl IndexError"
  by code_simp

text \<open>
  A second exception: a token of superscript digits passes \<^verbatim>\<open>isdigit\<close>, and
  \<^verbatim>\<open>int\<close> raises \<^verbatim>\<open>ValueError\<close> on it.
\<close>

lemma conversational_to_search_superscript:
  "conversational_to_search (Some [CHR 0xB2]) = Inl ValueError"
  by code_simp

lemma prefix_append_short:
  assumes "prefix xs (ys @ zs)" and "length xs \<le> length ys"
  shows "prefix xs ys"
  using assms by (auto simp: prefix_append)

lemma py_find_first:
  assumes "py_find (bs @ [l]) (pre @ bs) = None"
  shows "py_find (bs @ [l]) (pre @ bs @ [l] @ X) = Some (length pre)"
  using assms
proof (induction pre)
  case Nil
  show ?case by (cases bs) simp_all
next
  case (Cons c p)
  from Cons.prems have np: "\<not> prefix (bs @ [l]) (c # p @ bs)"
    and rec: "py_find (bs @ [l]) (p @ bs) = None"
    by (auto split: if_splits)
  have "\<not> prefix (bs @ [l]) (c # p @ bs @ [l] @ X)"
  proof
    assume "prefix (bs @ [l]) (c # p @ bs @ [l] @ X)"
    then have "prefix (bs @ [l]) ((c # p @ bs) @ ([l] @ X))"
      by simp
    moreover have "length (bs @ [l]) \<le> length (c # p @ bs)"
      by simp
    ultimately have "prefix (bs @ [l]) (c # p @ bs)"
      by (rule prefix_append_short)
    with np show False ..
  qed
  with Cons.IH [OF rec] show ?case by simp
qed

lemma py_split_first:
  assumes ws: "\<forall>c \<in> set ws. is_space c"
    and tok: "tok \<noteq> []" "\<forall>c \<in> set tok. \<not> is_space c"
    and rest: "rest = [] \<or> is_space (hd rest)"
  shows "py_split (ws @ tok @ rest) = tok # py_split rest"
proof -
  from tok obtain t ts where t: "tok = t # ts" and nt: "\<not> is_space t"
    by (cases tok) auto
  have d: "dropWhile is_space (ws @ tok @ rest) = tok @ rest"
    using ws nt by (simp add: t dropWhile_append3)
  have tw: "takeWhile (\<lambda>c. \<not> is_space c) (tok @ rest) = tok"
    using tok(2) rest by (cases rest) auto
  have dw: "dropWhile (\<lambda>c. \<not> is_space c) (tok @ rest) = dropWhile (\<lambda>c. \<not> is_space c) rest"
    using tok(2) by simp
  have r: "py_split (dropWhile (\<lambda>c. \<not> is_space c) rest) = py_split rest"
    using rest by (cases rest) auto
  have "py_split (ws @ tok @ rest) =
          (if tok @ rest = [] then []
           else takeWhile (\<lambda>c. \<not> is_space c) (tok @ rest)
                  # py_split (dropWhile (\<lambda>c. \<not> is_space c) (tok @ rest)))"
    using py_split.simps [of "ws @ tok @ rest"] by (simp only: Let_def d)
  also have "\<dots> = tok # py_split rest"
    using tok(1) by (simp only: tw dw r) simp
  finally show ?thesis .
qed

lemma py_strip_chars_spec:
  "\<exists>l t. s = l @ py_strip_chars cs s @ t \<and> set l \<subseteq> set cs \<and> set t \<subseteq> set cs \<and>
      (py_strip_chars cs s = [] \<or>
       hd (py_strip_chars cs s) \<notin> set cs \<and> last (py_strip_chars cs s) \<notin> set cs)"
proof -
  let ?P = "\<lambda>c. c \<in> set cs"
  define l where "l = takeWhile ?P s"
  define u where "u = dropWhile ?P s"
  define t where "t = rev (takeWhile ?P (rev u))"
  define m where "m = rev (dropWhile ?P (rev u))"
  have m: "py_strip_chars cs s = m"
    by (simp add: py_strip_chars_def m_def u_def)
  have s: "s = l @ u"
    by (simp add: l_def u_def)
  have "m @ t = rev (takeWhile ?P (rev u) @ dropWhile ?P (rev u))"
    unfolding m_def t_def by (simp only: rev_append)
  also have "\<dots> = u"
    by (simp only: takeWhile_dropWhile_id rev_rev_ident)
  finally have u: "u = m @ t" ..
  have sl: "set l \<subseteq> set cs"
    unfolding l_def using set_takeWhileD by fastforce
  have st: "set t \<subseteq> set cs"
    unfolding t_def using set_takeWhileD by fastforce
  have lastm: "last m \<notin> set cs" if "m \<noteq> []"
  proof -
    from that have ne: "dropWhile ?P (rev u) \<noteq> []" by (simp add: m_def)
    then have "\<not> ?P (hd (dropWhile ?P (rev u)))" by (rule hd_dropWhile)
    with ne show ?thesis by (simp add: m_def last_rev)
  qed
  have hdm: "hd m \<notin> set cs" if "m \<noteq> []"
  proof -
    from that u have "u \<noteq> []" by auto
    then have "\<not> ?P (hd u)" unfolding u_def by (rule hd_dropWhile)
    with that u show ?thesis by (cases m) auto
  qed
  from s u sl st hdm lastm show ?thesis
    unfolding m by (intro exI [of _ l] exI [of _ t]) auto
qed


text \<open>
  Claim C9, amended. Let the lower-cased query be \<open>pre @ ''with '' @ ws @ tok @ rest\<close>,
  where this is the first occurrence of \<^verbatim>\<open>with \<close>, \<open>ws\<close> is white space, \<open>tok\<close> is
  not empty and has no white space, and \<open>rest\<close> is empty or starts with white space; and
  let the scan for the budget return. Then the interpreter returns a request whose stylist
  hint is \<open>tok\<close> with the characters \<^verbatim>\<open>.\<close>, \<^verbatim>\<open>,\<close> and \<^verbatim>\<open>!\<close> stripped from both of its
  ends: what is removed in front and behind consists of these characters, and what is left
  is empty or neither starts nor ends with one of them.
\<close>

theorem stylist_extraction:
  assumes q: "py_lower query_text = pre @ ''with '' @ ws @ tok @ rest"
    and first: "\<not> py_in ''with '' (pre @ ''with'')"
    and ws: "\<forall>c \<in> set ws. is_space c"
    and tok: "tok \<noteq> []" "\<forall>c \<in> set tok. \<not> is_space c"
    and rest: "rest = [] \<or> is_space (hd rest)"
    and budget: "budget_loop (py_split (py_remove (CHR '','')
                   (py_remove (CHR ''$'') (py_lower query_text)))) None = Inr b"
  shows "(\<exists>r. conversational_to_search (Some query_text) = Inr r \<and>
              stylist r = Some (py_strip_chars ''.,!'' tok)) \<and>
         (\<exists>l t. tok = l @ py_strip_chars ''.,!'' tok @ t \<and>
                set l \<subseteq> set ''.,!'' \<and> set t \<subseteq> set ''.,!'' \<and>
                (py_strip_chars ''.,!'' tok = [] \<or>
                 hd (py_strip_chars ''.,!'' tok) \<notin> set ''.,!'' \<and>
                 last (py_strip_chars ''.,!'' tok) \<notin> set ''.,!''))"
proof -
  have ne: "truthy_str (Some query_text)"
    using q by (auto simp: truthy_str_def py_lower_def)
  from first have none: "py_find (''with'' @ [CHR '' '']) (pre @ ''with'') = None"
    by (simp add: py_in_def)
  have found: "py_find ''with '' (py_lower query_text) = Some (length pre)"
    using py_find_first [OF none, of "ws @ tok @ rest"] by (simp add: q)
  then have is_in: "py_in ''with '' (py_lower query_text)"
    by (simp add: py_in_def)
  have "py_split1 ''with '' (py_lower query_text) =
          [take (length pre) (py_lower query_text),
           drop (length pre + length ''with '') (py_lower query_text)]"
    by (simp only: py_split1_def found option.case)
  also have "\<dots> = [pre, ws @ tok @ rest]"
    by (simp add: q)
  finally have part: "py_index (py_split1 ''with '' (py_lower query_text)) 1 = Inr (ws @ tok @ rest)"
    by (simp add: py_index_def)
  have token: "py_index (py_split (ws @ tok @ rest)) 0 = Inr tok"
    by (simp add: py_split_first [OF ws tok rest] py_index_def)
  have st: "stylist_of (py_lower query_text) = Inr (py_strip_chars ''.,!'' tok)"
    by (simp only: stylist_of_def part token sum.case)
  have "\<exists>r. conversational_to_search (Some query_text) = Inr r \<and>
              stylist r = Some (py_strip_chars ''.,!'' tok)"
    unfolding conversational_to_search_def Let_def
    by (simp add: ne budget is_in st SearchRequest_new_def)
  with py_strip_chars_spec [of tok "''.,!''"] show ?thesis
    by blast
qed

text \<open>
  Claim C9, as stated, fails: punctuation in front of the token is stripped as well, so
  the hint for \<^verbatim>\<open>fade with .bob\<close> is \<^verbatim>\<open>bob\<close>, not \<^verbatim>\<open>.bob\<close>.
\<close>

theorem stylist_extraction_counterexample:
  "map_sum id stylist (conversational_to_search (Some ''fade with .bob'')) = Inr (Some ''bob'') \<and>
   map_sum id stylist (conversational_to_search (Some ''fade with .bob'')) \<noteq> Inr (Some ''.bob'')"
  by code_simp

theorem stylist_extraction_witness:
  "map_sum id stylist (conversational_to_search (Some ''Cut with .Bob!, at 50'')) = Inr (Some ''bob'')"
proof -
  have q: "py_lower ''Cut with .Bob!, at 50'' = ''cut '' @ ''with '' @ [] @ ''.bob!,'' @ '' at 50''"
    by code_simp
  have first: "\<not> py_in ''with '' (''cut '' @ ''with'')"
    by code_simp
  have ws: "\<forall>c \<in> set []. is_space c"
    by simp
  have tok: "''.bob!,'' \<noteq> []" "\<forall>c \<in> set ''.bob!,''. \<not> is_space c"
    by code_simp+
  have rest: "'' at 50'' = [] \<or> is_space (hd '' at 50'')"
    by code_simp
  have budget: "budget_loop (py_split (py_remove (CHR '','')
                   (py_remove (CHR ''$'') (py_lower ''Cut with .Bob!, at 50'')))) None
                 = Inr (Some (Finite 50))"
    by code_simp
  have strip: "py_strip_chars ''.,!'' ''.bob!,'' = ''bob''"
    by code_simp
  from stylist_extraction [OF q first ws tok rest budget]
  obtain r where "conversational_to_search (Some ''Cut with .Bob!, at 50'') = Inr r"
    and "stylist r = Some (py_strip_chars ''.,!'' ''.bob!,'')"
    by blast
  with strip show ?thesis by simp
qed

end
